theory Spec2Isabelle
  imports Complex_Main
begin

section \<open>Regular expressions of the validation schemas\<close>

text \<open>
  The schemas of \<^verbatim>\<open>src/app/component/form.tsx\<close> and \<^verbatim>\<open>src/lib/action.ts\<close> test
  strings against JavaScript regular expressions that are anchored on both sides
  (\<^verbatim>\<open>^...$\<close>, no \<^verbatim>\<open>m\<close> flag) and use only character classes, concatenation,
  alternation and bounded or unbounded repetition. For such an expression
  \<^verbatim>\<open>re.test(s)\<close> is true exactly when the whole string belongs to the regular
  language, which is decided here by derivatives. Capture groups do not change the
  language and are dropped. A class lists the characters it accepts; under the \<^verbatim>\<open>i\<close>
  flag a letter is listed in both cases.
\<close>

datatype regex =
    Fail
  | Eps
  | Cls "char list"
  | Alt regex regex
  | Cat regex regex
  | Rep regex

fun nullable :: "regex \<Rightarrow> bool" where
  "nullable Fail = False"
| "nullable Eps = True"
| "nullable (Cls cs) = False"
| "nullable (Alt r s) = (nullable r \<or> nullable s)"
| "nullable (Cat r s) = (nullable r \<and> nullable s)"
| "nullable (Rep r) = True"

fun deriv :: "char \<Rightarrow> regex \<Rightarrow> regex" where
  "deriv c Fail = Fail"
| "deriv c Eps = Fail"
| "deriv c (Cls cs) = (if c \<in> set cs then Eps else Fail)"
| "deriv c (Alt r s) = Alt (deriv c r) (deriv c s)"
| "deriv c (Cat r s) =
     (if nullable r then Alt (Cat (deriv c r) s) (deriv c s) else Cat (deriv c r) s)"
| "deriv c (Rep r) = Cat (deriv c r) (Rep r)"

fun matches :: "regex \<Rightarrow> string \<Rightarrow> bool" where
  "matches r [] = nullable r"
| "matches r (c # cs) = matches (deriv c r) cs"

text \<open>The quantifiers \<^verbatim>\<open>r{n}\<close>, \<^verbatim>\<open>r{0,n}\<close>, \<^verbatim>\<open>r?\<close>, \<^verbatim>\<open>r{m,n}\<close> and \<^verbatim>\<open>r{m,}\<close>.\<close>

fun exactly :: "nat \<Rightarrow> regex \<Rightarrow> regex" where
  "exactly 0 r = Eps"
| "exactly (Suc n) r = Cat r (exactly n r)"

fun at_most :: "nat \<Rightarrow> regex \<Rightarrow> regex" where
  "at_most 0 r = Eps"
| "at_most (Suc n) r = Alt (Cat r (at_most n r)) Eps"

definition opt :: "regex \<Rightarrow> regex" where
  "opt r = Alt r Eps"

definition between :: "nat \<Rightarrow> nat \<Rightarrow> regex \<Rightarrow> regex" where
  "between m n r = Cat (exactly m r) (at_most (n - m) r)"

definition at_least :: "nat \<Rightarrow> regex \<Rightarrow> regex" where
  "at_least m r = Cat (exactly m r) (Rep r)"

text \<open>\<^verbatim>\<open>\d\<close> without the \<^verbatim>\<open>u\<close> flag is the class of the ten ASCII digits.\<close>

definition digit :: regex where
  "digit = Cls ''0123456789''"

text \<open>
  form.tsx, lines 52-58, \<^verbatim>\<open>phoneNumber\<close> and \<^verbatim>\<open>emergencyContact\<close>:
  \<^verbatim>\<open>/^0\d{9,}$/\<close>.
\<close>

definition formPhoneRegex :: regex where
  "formPhoneRegex = Cat (Cls ''0'') (at_least 9 digit)"

text \<open>
  action.ts, lines 21-27, \<^verbatim>\<open>phoneNumber\<close> and \<^verbatim>\<open>emergencyContact\<close>:
  \<^verbatim>\<open>/^\+\d{1,3}\d{9,}$/\<close>.
\<close>

definition serverPhoneRegex :: regex where
  "serverPhoneRegex = Cat (Cls ''+'') (Cat (between 1 3 digit) (at_least 9 digit))"

text \<open>form.tsx, line 47, and action.ts, line 18: \<^verbatim>\<open>/^\d+$/\<close>.\<close>

definition digitsRegex :: regex where
  "digitsRegex = Cat digit (Rep digit)"

text \<open>
  form.tsx, lines 23-25:
  \<^verbatim>\<open>/^(M{0,3})(CM|CD|D?C{0,3})(XC|XL|L?X{0,3})(IX|IV|V?I{0,3})$/i\<close>.
\<close>

definition romanRegex :: regex where
  "romanRegex =
     Cat (at_most 3 (Cls ''Mm''))
    (Cat (Alt (Cat (Cls ''Cc'') (Cls ''Mm''))
         (Alt (Cat (Cls ''Cc'') (Cls ''Dd''))
              (Cat (opt (Cls ''Dd'')) (at_most 3 (Cls ''Cc'')))))
    (Cat (Alt (Cat (Cls ''Xx'') (Cls ''Cc''))
         (Alt (Cat (Cls ''Xx'') (Cls ''Ll''))
              (Cat (opt (Cls ''Ll'')) (at_most 3 (Cls ''Xx'')))))
         (Alt (Cat (Cls ''Ii'') (Cls ''Xx''))
         (Alt (Cat (Cls ''Ii'') (Cls ''Vv''))
              (Cat (opt (Cls ''Vv'')) (at_most 3 (Cls ''Ii'')))))))"

definition isValidRomanNumeral :: "string \<Rightarrow> bool" where
  "isValidRomanNumeral v = matches romanRegex v"

text \<open>An expression with a \<open>Fail\<close> on every path accepts nothing.\<close>

fun void :: "regex \<Rightarrow> bool" where
  "void Fail = True"
| "void Eps = False"
| "void (Cls cs) = False"
| "void (Alt r s) = (void r \<and> void s)"
| "void (Cat r s) = (void r \<or> void s)"
| "void (Rep r) = False"

section \<open>The Record and the validation schema\<close>

text \<open>
  The Record is the object of form values. Its keys are the 22 fields of
  \<^verbatim>\<open>employeeFormSchema\<close>; a value is a string or a \<^verbatim>\<open>Date\<close> (given by its time
  value), and a key that is absent or \<^verbatim>\<open>undefined\<close> is \<open>None\<close>.
\<close>

datatype field =
    FirstName | MiddleName | LastName | Dob | Gender | MaritalStatus
  | LevelOfficer | Rank | Qualification | MateType | MateNumber | AppointmentDate
  | StaffId | ServiceNumber | BankName | AccountNumber | Address | Email
  | NationalId | PhoneNumber | EmergencyContactName | EmergencyContact

datatype jsval = Str string | DateV int

type_synonym formValues = "field \<Rightarrow> jsval option"

text \<open>
  The part of the schema library the form relies on. A string schema rejects a value
  that is no string with a type issue and stops there (\<open>True\<close> in the first
  component: the parse is aborted); on a string it runs its checks in order and
  collects one issue for each check that fails, without aborting. The text of the
  library's own type issues does not matter to any property below.
\<close>

datatype strCheck = MinLen nat string | Matches regex string | IsEmail string

fun runCheck :: "(string \<Rightarrow> bool) \<Rightarrow> string \<Rightarrow> strCheck \<Rightarrow> string list" where
  "runCheck em s (MinLen n msg) = (if length s < n then [msg] else [])"
| "runCheck em s (Matches re msg) = (if matches re s then [] else [msg])"
| "runCheck em s (IsEmail msg) = (if em s then [] else [msg])"

fun zString :: "(string \<Rightarrow> bool) \<Rightarrow> strCheck list \<Rightarrow> jsval option \<Rightarrow> bool \<times> string list" where
  "zString em cks (Some (Str s)) = (False, concat (map (runCheck em s) cks))"
| "zString em cks None = (True, [''Required''])"
| "zString em cks (Some (DateV t)) = (True, [''Expected string, received date''])"

fun zOptionalString :: "jsval option \<Rightarrow> bool \<times> string list" where
  "zOptionalString None = (False, [])"
| "zOptionalString (Some (Str s)) = (False, [])"
| "zOptionalString (Some (DateV t)) = (True, [''Expected string, received date''])"

fun zDate :: "string \<Rightarrow> jsval option \<Rightarrow> bool \<times> string list" where
  "zDate required_error (Some (DateV t)) = (False, [])"
| "zDate required_error None = (True, [required_error])"
| "zDate required_error (Some (Str s)) = (True, [''Expected date, received string''])"

type_synonym fieldSchema = "jsval option \<Rightarrow> bool \<times> string list"

text \<open>
  An object schema parses every key of its shape in order. It is aborted when the
  parse of one key is, and its issues are those of the keys, each under its path.
\<close>

definition zObjectAborted :: "(field \<times> fieldSchema) list \<Rightarrow> formValues \<Rightarrow> bool" where
  "zObjectAborted shape data = list_ex (\<lambda>(f, p). fst (p (data f))) shape"

definition zObjectIssues :: "(field \<times> fieldSchema) list \<Rightarrow> formValues \<Rightarrow> (field \<times> string) list" where
  "zObjectIssues shape data = concat (map (\<lambda>(f, p). map (Pair f) (snd (p (data f)))) shape)"

text \<open>
  form.tsx, lines 28-59: the shape of \<^verbatim>\<open>employeeFormSchema\<close>. The grammar behind
  \<^verbatim>\<open>.email()\<close> belongs to the schema library and is the parameter \<open>em\<close>.
\<close>

definition employeeFormShape :: "(string \<Rightarrow> bool) \<Rightarrow> (field \<times> fieldSchema) list" where
  "employeeFormShape em =
    [(FirstName, zString em [MinLen 2 ''First name must be at least 2 characters'']),
     (MiddleName, zOptionalString),
     (LastName, zString em [MinLen 2 ''Last name must be at least 2 characters'']),
     (Dob, zDate ''Date of birth is required''),
     (Gender, zString em [MinLen 1 ''Gender is required'']),
     (MaritalStatus, zString em [MinLen 1 ''Marital status is required'']),
     (LevelOfficer, zString em [MinLen 1 ''Level officer is required'']),
     (Rank, zString em [MinLen 1 ''Rank is required'']),
     (Qualification, zString em [MinLen 1 ''Qualification is required'']),
     (MateType, zOptionalString),
     (MateNumber, zOptionalString),
     (AppointmentDate, zDate ''Appointment date is required''),
     (StaffId, zString em [MinLen 1 ''Staff ID is required'']),
     (ServiceNumber, zString em [MinLen 1 ''Service number is required'']),
     (BankName, zString em [MinLen 1 ''Bank name is required'']),
     (AccountNumber, zString em
        [Matches digitsRegex ''Account number must contain only digits'',
         MinLen 10 ''Account number must be at least 10 digits'']),
     (Address, zString em [MinLen 5 ''Address must be at least 5 characters'']),
     (Email, zString em [IsEmail ''Please enter a valid email address'']),
     (NationalId, zString em [MinLen 1 ''National ID is required'']),
     (PhoneNumber, zString em
        [Matches formPhoneRegex ''Phone number must start with 0 followed by at least 9 digits'']),
     (EmergencyContactName, zString em [MinLen 2 ''Emergency contact name is required'']),
     (EmergencyContact, zString em
        [Matches formPhoneRegex
           ''Emergency contact must start with 0 followed by at least 9 digits''])]"

text \<open>
  form.tsx, lines 60-67: the refinement. \<^verbatim>\<open>data.mateNumber || ""\<close> takes the empty
  string for \<^verbatim>\<open>undefined\<close> (and for the empty string itself).
\<close>

definition orEmpty :: "jsval option \<Rightarrow> string" where
  "orEmpty v = (case v of Some (Str s) \<Rightarrow> s | _ \<Rightarrow> [])"

definition mateNumberRule :: "formValues \<Rightarrow> bool" where
  "mateNumberRule data =
     (if data MateType = Some (Str ''intake'')
      then isValidRomanNumeral (orEmpty (data MateNumber))
      else True)"

definition romanMessage :: string where
  "romanMessage =
     ''Intake mate number must be a valid Roman numeral (e.g., I, II, III, IV, V, etc.)''"

text \<open>
  The full schema: the issues of a parse. The refinement runs on the parsed object
  unless the object parse was aborted, and reports under the path \<^verbatim>\<open>mateNumber\<close>.
  Validation passes exactly when there is no issue.
\<close>

definition employeeFormSchema :: "(string \<Rightarrow> bool) \<Rightarrow> formValues \<Rightarrow> (field \<times> string) list" where
  "employeeFormSchema em data =
     (if zObjectAborted (employeeFormShape em) data
      then zObjectIssues (employeeFormShape em) data
      else zObjectIssues (employeeFormShape em) data
           @ (if mateNumberRule data then [] else [(MateNumber, romanMessage)]))"

definition validates :: "(string \<Rightarrow> bool) \<Rightarrow> formValues \<Rightarrow> bool" where
  "validates em data = (employeeFormSchema em data = [])"

text \<open>form.tsx, lines 318-339: the default values; the two dates have no default.\<close>

definition defaultValues :: formValues where
  "defaultValues = map_of
    [(FirstName, Str ''''), (MiddleName, Str ''''), (LastName, Str ''''),
     (LevelOfficer, Str ''''), (Rank, Str ''''), (Qualification, Str ''''),
     (MateType, Str ''''), (MateNumber, Str ''''), (StaffId, Str ''''),
     (ServiceNumber, Str ''''), (BankName, Str ''''), (AccountNumber, Str ''''),
     (Address, Str ''''), (Email, Str ''''), (NationalId, Str ''''),
     (PhoneNumber, Str ''''), (EmergencyContactName, Str ''''),
     (EmergencyContact, Str ''''), (Gender, Str ''''), (MaritalStatus, Str '''')]"

text \<open>A Record that satisfies every rule, used to instantiate the theorems below.\<close>

definition sampleRecord :: formValues where
  "sampleRecord = map_of
    [(FirstName, Str ''Ama''), (MiddleName, Str ''''), (LastName, Str ''Mensah''),
     (Dob, DateV 631152000000), (Gender, Str ''Female''), (MaritalStatus, Str ''Single''),
     (LevelOfficer, Str ''Senior Officer''), (Rank, Str ''DO I''),
     (Qualification, Str ''Degree''), (MateType, Str ''intake''), (MateNumber, Str ''IV''),
     (AppointmentDate, DateV 1577836800000), (StaffId, Str ''S-17''),
     (ServiceNumber, Str ''G4471''), (BankName, Str ''GCB''),
     (AccountNumber, Str ''1020304050''), (Address, Str ''Legon, Accra''),
     (Email, Str ''ama@ug.edu.gh''), (NationalId, Str ''GHA-000000000-0''),
     (PhoneNumber, Str ''0241234567''), (EmergencyContactName, Str ''Kofi Mensah''),
     (EmergencyContact, Str ''0201234567'')]"

text \<open>A stand-in for the library's e-mail grammar in concrete evaluations.\<close>

definition hasAt :: "string \<Rightarrow> bool" where
  "hasAt s = (CHR ''@'' \<in> set s)"

section \<open>The progress calculator\<close>

text \<open>
  form.tsx, lines 358-368. \<^verbatim>\<open>Object.entries(formValues)\<close> ranges over the keys of the
  form values, which are fields of the schema; a key that is absent contributes
  nothing, as an \<^verbatim>\<open>undefined\<close> value does. \<^verbatim>\<open>Math.round\<close> rounds to the nearest
  integer, a half upwards. The quotient is taken in exact arithmetic; lemma
  \<open>progress_tolerates_rounding\<close> below shows that an error smaller than \<open>1/22\<close> in
  the product (far more than double precision commits) leaves the result unchanged.
\<close>

definition allFields :: "field list" where
  "allFields =
    [FirstName, MiddleName, LastName, Dob, Gender, MaritalStatus, LevelOfficer, Rank,
     Qualification, MateType, MateNumber, AppointmentDate, StaffId, ServiceNumber,
     BankName, AccountNumber, Address, Email, NationalId, PhoneNumber,
     EmergencyContactName, EmergencyContact]"

definition totalFields :: nat where
  "totalFields = 22"

definition filledFields :: "formValues \<Rightarrow> nat" where
  "filledFields formValues =
     length (filter (\<lambda>f. \<not> (formValues f = None \<or> formValues f = Some (Str ''''))) allFields)"

definition js_round :: "real \<Rightarrow> int" where
  "js_round x = \<lfloor>x + 1 / 2\<rfloor>"

definition calcProgress :: "formValues \<Rightarrow> int" where
  "calcProgress formValues =
     js_round ((real (filledFields formValues) / real totalFields) * 100)"

section \<open>The store\<close>

text \<open>
  store/employee.tsx. The outcome of \<^verbatim>\<open>api.post\<close> is an input of the model: the
  promise resolves (a 2xx response) or rejects with a thrown value. Of a thrown value
  the code reads whether it is an axios error, its \<^verbatim>\<open>response?.data?.message\<close> and
  its \<^verbatim>\<open>message\<close>. A function that can throw returns a sum, \<open>Inl\<close> the thrown value.
\<close>

record storeState =
  isLoading :: bool
  success :: bool
  error :: "string option"

datatype thrown =
    AxiosError "string option" string
  | JsError string
  | OtherThrown

datatype outcome = Resolved | Rejected thrown

definition initialStore :: storeState where
  "initialStore = \<lparr>isLoading = False, success = False, error = None\<rparr>"

definition API_URL :: "bool \<Rightarrow> string" where
  "API_URL production =
     (if production then ''https://ug-gnfs-backend.vercel.app'' else ''http://localhost:8080'')"

text \<open>The request body: the fields of the Record and the derived \<^verbatim>\<open>mateInfo\<close>.\<close>

record payload =
  employeeData :: formValues
  mateInfo :: string

text \<open>What the user and the network see, in order.\<close>

datatype effect =
    HttpPost string payload
  | ToastLoading string
  | ToastDismiss
  | ToastSuccess string
  | ToastError string

text \<open>
  \<^verbatim>\<open>err.response?.data?.message || err.message || errorMsg\<close>: an absent or empty
  string is falsy.
\<close>

definition axiosMessage :: "string option \<Rightarrow> string \<Rightarrow> string \<Rightarrow> string" where
  "axiosMessage responseMessage message errorMsg =
     (case responseMessage of
        Some m \<Rightarrow> (if m \<noteq> [] then m else if message \<noteq> [] then message else errorMsg)
      | None \<Rightarrow> (if message \<noteq> [] then message else errorMsg))"

fun catchMessage :: "thrown \<Rightarrow> string" where
  "catchMessage (AxiosError responseMessage message) =
     axiosMessage responseMessage message ''Failed to add employee''"
| "catchMessage (JsError message) = message"
| "catchMessage OtherThrown = ''Failed to add employee''"

definition addEmployee ::
  "bool \<Rightarrow> outcome \<Rightarrow> payload \<Rightarrow> storeState \<Rightarrow> effect list \<times> (thrown + storeState)" where
  "addEmployee production out employee st =
     (let st1 = st\<lparr>isLoading := True, success := False, error := None\<rparr>;
          request = [HttpPost (API_URL production @ ''/api/employee/add'') employee]
      in case out of
           Resolved \<Rightarrow> (request, Inr (st1\<lparr>isLoading := False, success := True\<rparr>))
         | Rejected err \<Rightarrow>
             (request,
              Inr (st1\<lparr>isLoading := False, success := False, error := Some (catchMessage err)\<rparr>)))"

section \<open>The form component\<close>

text \<open>
  form.tsx, lines 309-459. The state of \<^verbatim>\<open>EmployeeForm\<close>: the values and the error
  object held by the form library, and the component's own state variables.
\<close>

record formState =
  fvalues :: formValues
  ferrors :: "(field \<times> string) list"
  isSubmitting :: bool
  levelOfficer :: string
  mateType :: string
  currentStep :: int
  formProgress :: int
  isStepValid :: bool

definition initialState :: formState where
  "initialState =
     \<lparr>fvalues = defaultValues, ferrors = [], isSubmitting = False, levelOfficer = '''',
      mateType = '''', currentStep = 1, formProgress = 0, isStepValid = False\<rparr>"

definition goToStep :: "int \<Rightarrow> formState \<Rightarrow> formState" where
  "goToStep step s = s\<lparr>currentStep := step\<rparr>"

text \<open>\<^verbatim>\<open>form.reset(defaultValues)\<close> restores the values and empties the error object.\<close>

definition handleResetForm :: "formState \<Rightarrow> formState" where
  "handleResetForm s =
     s\<lparr>fvalues := defaultValues, ferrors := [], levelOfficer := '''', mateType := '''',
       currentStep := 1\<rparr>"

text \<open>
  Lines 434-454. Indexing \<^verbatim>\<open>requiredFieldsByStep\<close> with a step that is no key of
  it gives \<^verbatim>\<open>undefined\<close>, and the call of \<^verbatim>\<open>every\<close> on it throws: \<open>None\<close>.
\<close>

definition requiredFieldsByStep :: "int \<Rightarrow> field list option" where
  "requiredFieldsByStep step =
     (if step = 1 then Some [FirstName, LastName, Dob, Gender, MaritalStatus, NationalId]
      else if step = 2 then
        Some [LevelOfficer, Rank, Qualification, AppointmentDate, StaffId, ServiceNumber, Email]
      else if step = 3 then Some [BankName, AccountNumber]
      else if step = 4 then
        Some [Address, PhoneNumber, EmergencyContactName, EmergencyContact]
      else None)"

definition isCurrentStepValid :: "formState \<Rightarrow> bool option" where
  "isCurrentStepValid s =
     (if ferrors s \<noteq> [] then Some False
      else case requiredFieldsByStep (currentStep s) of
             None \<Rightarrow> None
           | Some required \<Rightarrow>
               Some (list_all (\<lambda>f. fvalues s f \<noteq> None \<and> fvalues s f \<noteq> Some (Str '''')) required))"

text \<open>
  The three effects that follow a render, in the order of the source: lines 349-355,
  lines 358-368 and lines 457-459. The source runs the first effect only when the
  watched mate type or the state variable has changed, the model after every render.
  While the mate type held by the form is a string, which is all the two selects and
  the default values ever store, both give the same state: a further run changes
  nothing (lemmas \<open>mateTypeEffect_same\<close> and \<open>mateTypeEffect_idem\<close>). They differ
  only for a mate type that is \<^verbatim>\<open>undefined\<close> or no string, where the model empties
  the mate number after every render and the source only after a change; no
  widget of the form produces such a value.
\<close>

definition mateTypeEffect :: "formState \<Rightarrow> formState" where
  "mateTypeEffect s =
     (let watchedMateType = fvalues s MateType;
          s1 = s\<lparr>mateType := orEmpty watchedMateType\<rparr>
      in if watchedMateType \<noteq> Some (Str (mateType s))
         then s1\<lparr>fvalues := (fvalues s)(MateNumber \<mapsto> Str '''')\<rparr>
         else s1)"

definition progressEffect :: "formState \<Rightarrow> formState" where
  "progressEffect s = s\<lparr>formProgress := calcProgress (fvalues s)\<rparr>"

definition stepValidEffect :: "formState \<Rightarrow> formState option" where
  "stepValidEffect s =
     (case isCurrentStepValid s of None \<Rightarrow> None | Some b \<Rightarrow> Some (s\<lparr>isStepValid := b\<rparr>))"

definition render :: "formState \<Rightarrow> formState option" where
  "render s = stepValidEffect (progressEffect (mateTypeEffect s))"

text \<open>
  Lines 890-896 and 1116-1121: the two selects whose change clears a dependent field
  (\<^verbatim>\<open>field.onChange(value)\<close>, then \<^verbatim>\<open>form.setValue\<close> of the dependent field).
\<close>

definition onLevelOfficerChange :: "string \<Rightarrow> formState \<Rightarrow> formState" where
  "onLevelOfficerChange v s =
     s\<lparr>fvalues := ((fvalues s)(LevelOfficer \<mapsto> Str v))(Rank \<mapsto> Str ''''),
       levelOfficer := v\<rparr>"

definition onMateTypeChange :: "string \<Rightarrow> formState \<Rightarrow> formState" where
  "onMateTypeChange v s =
     s\<lparr>fvalues := ((fvalues s)(MateType \<mapsto> Str v))(MateNumber \<mapsto> Str '''')\<rparr>"

definition onFieldChange :: "field \<Rightarrow> jsval option \<Rightarrow> formState \<Rightarrow> formState" where
  "onFieldChange f v s = s\<lparr>fvalues := (fvalues s)(f := v)\<rparr>"

text \<open>
  Lines 371-416. A template literal prints \<^verbatim>\<open>undefined\<close> for a missing value. The
  data handed to \<^verbatim>\<open>onSubmit\<close> has passed the schema, so the interpolated fields are
  strings or missing; how a date would print is left open. The success message
  ends with an emoji in the source, which is left out here.
\<close>

fun interpolate :: "jsval option \<Rightarrow> string" where
  "interpolate None = ''undefined''"
| "interpolate (Some (Str s)) = s"
| "interpolate (Some (DateV t)) = ''[object Date]''"

definition combinedData :: "formValues \<Rightarrow> payload" where
  "combinedData data =
     \<lparr>employeeData = data,
      mateInfo = interpolate (data MateType) @ ''-'' @ interpolate (data MateNumber)\<rparr>"

definition successMessage :: "formValues \<Rightarrow> string" where
  "successMessage data =
     interpolate (data FirstName) @ '' '' @ interpolate (data LastName)
     @ '' has been registered successfully!''"

fun errorMessage :: "thrown \<Rightarrow> string" where
  "errorMessage (AxiosError responseMessage message) = message"
| "errorMessage (JsError message) = message"
| "errorMessage OtherThrown = ''There was a problem registering the employee.''"

definition onSubmit ::
  "bool \<Rightarrow> outcome \<Rightarrow> formValues \<Rightarrow> formState \<times> storeState
     \<Rightarrow> effect list \<times> formState \<times> storeState" where
  "onSubmit production out data app =
     (let s1 = (fst app)\<lparr>isSubmitting := True\<rparr>;
          (request, result) = addEmployee production out (combinedData data) (snd app)
      in case result of
           Inr st' \<Rightarrow>
             ([ToastLoading ''Registering employee...''] @ request
                @ [ToastDismiss, ToastSuccess (successMessage data)],
              (handleResetForm s1)\<lparr>isSubmitting := False\<rparr>, st')
         | Inl err \<Rightarrow>
             ([ToastLoading ''Registering employee...''] @ request
                @ [ToastDismiss, ToastError (errorMessage err)],
              s1\<lparr>isSubmitting := False\<rparr>, snd app))"

text \<open>
  Line 656, \<^verbatim>\<open>form.handleSubmit(onSubmit)\<close> with the resolver of line 342: the form
  library runs \<^verbatim>\<open>employeeFormSchema\<close> on the values; with issues it stores them as
  the errors and does not call \<^verbatim>\<open>onSubmit\<close>, without issues it calls \<^verbatim>\<open>onSubmit\<close> on
  the parsed values.
\<close>

definition handleSubmit ::
  "bool \<Rightarrow> (string \<Rightarrow> bool) \<Rightarrow> outcome \<Rightarrow> formState \<times> storeState
     \<Rightarrow> effect list \<times> formState \<times> storeState" where
  "handleSubmit production em out app =
     (let errs = employeeFormSchema em (fvalues (fst app))
      in if errs \<noteq> [] then ([], (fst app)\<lparr>ferrors := errs\<rparr>, snd app)
         else onSubmit production out (fvalues (fst app)) ((fst app)\<lparr>ferrors := []\<rparr>, snd app))"

text \<open>
  The events of the form: a change of a field through \<^verbatim>\<open>field.onChange\<close>, the two
  selects with their own handlers, the four step buttons (lines 612-651), the
  buttons Previous, Next, Reset Form and Submit Details (lines 1362-1420) with the
  outcome of the request a submission may issue, and the form library replacing its
  error object after a revalidation. A button that is disabled or not rendered does
  nothing. Every event is followed by a render and its effects; \<open>None\<close> is the
  uncaught exception of \<open>stepValidEffect\<close>.
\<close>

datatype stepButton = Personal | Employment | Banking | Contact

fun stepOf :: "stepButton \<Rightarrow> int" where
  "stepOf Personal = 1"
| "stepOf Employment = 2"
| "stepOf Banking = 3"
| "stepOf Contact = 4"

datatype event =
    Change field "jsval option"
  | SelectLevelOfficer string
  | SelectMateType string
  | ClickStep stepButton
  | ClickPrevious
  | ClickNext
  | ClickReset
  | ClickSubmit outcome
  | ErrorsUpdated "(field \<times> string) list"

fun handle ::
  "bool \<Rightarrow> (string \<Rightarrow> bool) \<Rightarrow> event \<Rightarrow> formState \<times> storeState
     \<Rightarrow> effect list \<times> formState \<times> storeState" where
  "handle production em (Change f v) (s, st) = ([], onFieldChange f v s, st)"
| "handle production em (SelectLevelOfficer v) (s, st) = ([], onLevelOfficerChange v s, st)"
| "handle production em (SelectMateType v) (s, st) = ([], onMateTypeChange v s, st)"
| "handle production em (ClickStep b) (s, st) = ([], goToStep (stepOf b) s, st)"
| "handle production em ClickPrevious (s, st) =
     (if currentStep s = 1 then ([], s, st)
      else if currentStep s > 1 then ([], goToStep (currentStep s - 1) s, st)
      else ([], s, st))"
| "handle production em ClickNext (s, st) =
     (if currentStep s < 4 \<and> isStepValid s then ([], goToStep (currentStep s + 1) s, st)
      else ([], s, st))"
| "handle production em ClickReset (s, st) = ([], handleResetForm s, st)"
| "handle production em (ClickSubmit out) (s, st) =
     (if \<not> currentStep s < 4 \<and> \<not> (isSubmitting s \<or> \<not> isStepValid s)
      then handleSubmit production em out (s, st)
      else ([], s, st))"
| "handle production em (ErrorsUpdated errs) (s, st) = ([], s\<lparr>ferrors := errs\<rparr>, st)"

definition dispatch ::
  "bool \<Rightarrow> (string \<Rightarrow> bool) \<Rightarrow> event \<Rightarrow> formState \<times> storeState
     \<Rightarrow> (effect list \<times> formState \<times> storeState) option" where
  "dispatch production em ev app =
     (let (fx, s, st) = handle production em ev app
      in case render s of None \<Rightarrow> None | Some s' \<Rightarrow> Some (fx, s', st))"

fun run ::
  "bool \<Rightarrow> (string \<Rightarrow> bool) \<Rightarrow> event list \<Rightarrow> formState \<times> storeState
     \<Rightarrow> (effect list \<times> formState \<times> storeState) option" where
  "run production em [] app = Some ([], app)"
| "run production em (ev # evs) app =
     (case dispatch production em ev app of
        None \<Rightarrow> None
      | Some (fx, app') \<Rightarrow>
          (case run production em evs app' of
             None \<Rightarrow> None
           | Some (fx', app'') \<Rightarrow> Some (fx @ fx', app'')))"

text \<open>The form after it is mounted: the first render and its effects.\<close>

definition mounted :: "(formState \<times> storeState) option" where
  "mounted = (case render initialState of None \<Rightarrow> None | Some s \<Rightarrow> Some (s, initialStore))"


text \<open>Every field rule of the shape passes: no type issue and no failed check.\<close>

definition fieldRulesPass :: "(string \<Rightarrow> bool) \<Rightarrow> formValues \<Rightarrow> bool" where
  "fieldRulesPass em data =
     (\<not> zObjectAborted (employeeFormShape em) data
      \<and> zObjectIssues (employeeFormShape em) data = [])"

text \<open>Concrete inputs for the theorems below.\<close>

definition fullRecord :: formValues where
  "fullRecord = sampleRecord(MiddleName \<mapsto> Str ''Esi'')"

definition readyState :: formState where
  "readyState =
     \<lparr>fvalues = sampleRecord, ferrors = [], isSubmitting = False,
      levelOfficer = ''Senior Officer'', mateType = ''intake'', currentStep = 4,
      formProgress = 95, isStepValid = True\<rparr>"







section \<open>Properties of the regular expressions\<close>

lemma void_not_nullable: "void r \<Longrightarrow> \<not> nullable r"
  by (induction r) auto

lemma void_deriv: "void r \<Longrightarrow> void (deriv c r)"
  by (induction r) (auto dest: void_not_nullable)

lemma void_no_match: "void r \<Longrightarrow> \<not> matches r s"
proof (induction s arbitrary: r)
  case Nil
  then show ?case by (simp add: void_not_nullable)
next
  case (Cons c cs)
  from Cons.prems have "void (deriv c r)" by (rule void_deriv)
  then show ?case using Cons.IH by simp
qed

lemma formPhone_first: "matches formPhoneRegex s \<Longrightarrow> \<exists>cs. s = CHR ''0'' # cs"
proof (cases s)
  case Nil
  assume "matches formPhoneRegex s"
  with Nil show ?thesis by (simp add: formPhoneRegex_def)
next
  case (Cons c cs)
  assume m: "matches formPhoneRegex s"
  have "c = CHR ''0''"
  proof (rule ccontr)
    assume "c \<noteq> CHR ''0''"
    then have "void (deriv c formPhoneRegex)" by (simp add: formPhoneRegex_def)
    then have "\<not> matches formPhoneRegex (c # cs)" by (simp add: void_no_match)
    with m Cons show False by simp
  qed
  with Cons show ?thesis by simp
qed

lemma serverPhone_first: "matches serverPhoneRegex s \<Longrightarrow> \<exists>cs. s = CHR ''+'' # cs"
proof (cases s)
  case Nil
  assume "matches serverPhoneRegex s"
  with Nil show ?thesis by (simp add: serverPhoneRegex_def)
next
  case (Cons c cs)
  assume m: "matches serverPhoneRegex s"
  have "c = CHR ''+''"
  proof (rule ccontr)
    assume "c \<noteq> CHR ''+''"
    then have "void (deriv c serverPhoneRegex)" by (simp add: serverPhoneRegex_def)
    then have "\<not> matches serverPhoneRegex (c # cs)" by (simp add: void_no_match)
    with m Cons show False by simp
  qed
  with Cons show ?thesis by simp
qed

text \<open>
  C7. The form-level schema accepts a phone number (and an emergency-contact number)
  only if it has the local form, a leading \<open>0\<close> followed by at least nine digits; the
  server-side schema accepts it only in the international form, a leading \<open>+\<close>
  followed by at least ten digits. The two rules are inconsistent: no string
  matches both the form-level and the server-side phone expression.
\<close>

theorem phone_rules_inconsistent:
  "\<not> (matches formPhoneRegex s \<and> matches serverPhoneRegex s)"
proof
  assume "matches formPhoneRegex s \<and> matches serverPhoneRegex s"
  then obtain cs ds where "s = CHR ''0'' # cs" and "s = CHR ''+'' # ds"
    using formPhone_first serverPhone_first by blast
  then show False by simp
qed

theorem phone_rules_inconsistent_witness:
  "matches formPhoneRegex ''0241234567'' \<and> \<not> matches serverPhoneRegex ''0241234567''
   \<and> matches serverPhoneRegex ''+233241234567''"
  using phone_rules_inconsistent [of "''0241234567''"]
  by code_simp

section \<open>Properties of the validation schema\<close>

lemma zObject_pass_iff:
  "(\<not> zObjectAborted sh d \<and> zObjectIssues sh d = []) \<longleftrightarrow>
   (\<forall>(f, p) \<in> set sh. p (d f) = (False, []))"
  by (induction sh) (auto simp: zObjectAborted_def zObjectIssues_def prod_eq_iff)






lemma roman_empty: "isValidRomanNumeral ''''"
  by code_simp

lemma schema_of_pass:
  "fieldRulesPass em r \<Longrightarrow>
   employeeFormSchema em r = (if mateNumberRule r then [] else [(MateNumber, romanMessage)])"
  by (simp add: fieldRulesPass_def employeeFormSchema_def)

lemma sample_pass: "fieldRulesPass hasAt sampleRecord"
  by code_simp









text \<open>
  C9. The Roman-numeral validator accepts the empty string. So a Record with
  category \<open>intake\<close> and an empty (or missing) number satisfies the cross-field
  rule, and it passes full-schema validation when its fields pass their own rules.
\<close>

theorem roman_accepts_empty:
  "isValidRomanNumeral ''''
   \<and> (r MateType = Some (Str ''intake'')
        \<and> (r MateNumber = Some (Str '''') \<or> r MateNumber = None)
      \<longrightarrow> mateNumberRule r \<and> (fieldRulesPass em r \<longrightarrow> validates em r))"
proof (intro conjI impI)
  show "isValidRomanNumeral ''''" by (rule roman_empty)
next
  assume "r MateType = Some (Str ''intake'')
    \<and> (r MateNumber = Some (Str '''') \<or> r MateNumber = None)"
  then have "r MateType = Some (Str ''intake'')" and "orEmpty (r MateNumber) = ''''"
    by (auto simp: orEmpty_def)
  then show rule: "mateNumberRule r" by (simp add: mateNumberRule_def roman_empty)
  { assume "fieldRulesPass em r"
    then show "validates em r" using rule by (simp add: validates_def schema_of_pass) }
qed

theorem roman_accepts_empty_witness:
  "isValidRomanNumeral '''' \<and> validates hasAt (sampleRecord(MateNumber \<mapsto> Str ''''))"
proof -
  let ?r = "sampleRecord(MateNumber \<mapsto> Str '''')"
  have 1: "?r MateType = Some (Str ''intake'') \<and> ?r MateNumber = Some (Str '''')"
    by code_simp
  have 2: "fieldRulesPass hasAt ?r"
    by code_simp
  show ?thesis using roman_accepts_empty [of ?r hasAt] 1 2 by simp
qed

section \<open>Properties of the progress calculator\<close>

lemma js_round_div:
  "js_round (real c / real totalFields * 100) = (200 * int c + 22) div 44"
proof -
  have "real c / 22 * 100 + 1 / 2 = real_of_int (200 * int c + 22) / real_of_int 44"
    by simp
  then have "\<lfloor>real c / 22 * 100 + 1 / 2\<rfloor> = (200 * int c + 22) div 44"
    by (simp only: floor_divide_of_int_eq)
  then show ?thesis by (simp add: js_round_def totalFields_def)
qed

lemma quotient_bounds:
  fixes c :: int
  shows "44 * ((200 * c + 22) div 44) + 2 \<le> 200 * c + 22
    \<and> 200 * c + 22 \<le> 44 * ((200 * c + 22) div 44) + 42"
proof -
  define y where "y = 100 * c + 11"
  have e: "200 * c + 22 = 2 * y" by (simp add: y_def)
  have d: "(2 * y) div 44 = y div 22"
    using div_mult_mult1 [of 2 y 22] by simp
  have odd: "\<not> 2 dvd y" unfolding y_def by simp
  have m: "y mod 22 \<noteq> 0"
  proof
    assume "y mod 22 = 0"
    then have "22 dvd y" by (simp add: dvd_eq_mod_eq_0)
    moreover have "(2::int) dvd 22" by simp
    ultimately have "2 dvd y" by (rule dvd_trans [rotated])
    with odd show False by simp
  qed
  have "0 \<le> y mod 22" "y mod 22 < 22" by simp_all
  with m have "1 \<le> y mod 22" "y mod 22 \<le> 21" by linarith+
  moreover have "y = 22 * (y div 22) + y mod 22" by simp
  ultimately show ?thesis unfolding e d by linarith
qed

lemma quotient_bounds_real:
  fixes c :: nat
  defines "q \<equiv> (200 * int c + 22) div 44"
  shows "real_of_int q + 1 / 22 \<le> real c / 22 * 100 + 1 / 2"
    and "real c / 22 * 100 + 1 / 2 \<le> real_of_int q + 1 - 1 / 22"
proof -
  from quotient_bounds [of "int c"]
  have lo: "44 * q + 2 \<le> 200 * int c + 22" and hi: "200 * int c + 22 \<le> 44 * q + 42"
    by (simp_all add: q_def)
  from lo have "real_of_int (44 * q + 2) \<le> real_of_int (200 * int c + 22)"
    by (simp only: of_int_le_iff)
  then show "real_of_int q + 1 / 22 \<le> real c / 22 * 100 + 1 / 2" by simp
  from hi have "real_of_int (200 * int c + 22) \<le> real_of_int (44 * q + 42)"
    by (simp only: of_int_le_iff)
  then show "real c / 22 * 100 + 1 / 2 \<le> real_of_int q + 1 - 1 / 22" by simp
qed

lemma progress_tolerates_rounding:
  assumes "\<bar>x - real c / real totalFields * 100\<bar> < 1 / 22"
  shows "js_round x = js_round (real c / real totalFields * 100)"
proof -
  define q where "q = (200 * int c + 22) div 44"
  from assms have "\<bar>x - real c / 22 * 100\<bar> < 1 / 22"
    by (simp only: totalFields_def of_nat_numeral)
  then have "real c / 22 * 100 - 1 / 22 < x" and "x < real c / 22 * 100 + 1 / 22"
    by linarith+
  with quotient_bounds_real [of c]
  have "real_of_int q \<le> x + 1 / 2" and "x + 1 / 2 < real_of_int q + 1"
    unfolding q_def by linarith+
  then have "\<lfloor>x + 1 / 2\<rfloor> = q" by (simp add: floor_unique)
  then have "js_round x = q" by (simp only: js_round_def)
  then show ?thesis by (simp only: js_round_div q_def)
qed

lemma allFields_complete: "f \<in> set allFields"
  by (cases f) (simp_all add: allFields_def)

lemma filledFields_le: "filledFields r \<le> 22"
proof -
  have "filledFields r \<le> length allFields"
    unfolding filledFields_def by (rule length_filter_le)
  then show ?thesis by (simp add: allFields_def)
qed

lemma filledFields_all:
  assumes "\<forall>f. r f \<noteq> None \<and> r f \<noteq> Some (Str '''')"
  shows "filledFields r = 22"
proof -
  from assms have "filter (\<lambda>f. \<not> (r f = None \<or> r f = Some (Str ''''))) allFields = allFields"
    by simp
  then have "filledFields r = length allFields" by (simp only: filledFields_def)
  then show ?thesis by (simp add: allFields_def)
qed

lemma render_progress: "render s = Some s' \<Longrightarrow> formProgress s' = calcProgress (fvalues s')"
  by (auto simp: render_def stepValidEffect_def progressEffect_def split: option.splits)

lemma allFields_distinct: "distinct allFields"
  by (simp add: allFields_def)

lemma filledFields_card:
  "filledFields r = card {f. r f \<noteq> None \<and> r f \<noteq> Some (Str '''')}"
proof -
  let ?P = "\<lambda>f. \<not> (r f = None \<or> r f = Some (Str ''''))"
  have "distinct (filter ?P allFields)"
    using allFields_distinct by (rule distinct_filter)
  then have "card (set (filter ?P allFields)) = length (filter ?P allFields)"
    by (rule distinct_card)
  moreover have "set (filter ?P allFields) = {f. r f \<noteq> None \<and> r f \<noteq> Some (Str '''')}"
    using allFields_complete by auto
  ultimately show ?thesis by (simp add: filledFields_def)
qed

text \<open>
  C3. For every Record the progress percentage is \<open>100 * count / 22\<close> rounded to the
  nearest integer, where \<open>count\<close> is the number of fields of the Record that are
  neither missing nor the empty string and 22 is the fixed number of fields,
  optional ones included. In integers it is \<open>(100 * count + 11) div 22\<close>. The value
  \<open>100 * count / 22\<close> is never half-way between two integers, so every rounding
  convention gives the same result. The percentage shown after a render is this
  value. It is 0 for the empty initial Record and 100 when all 22 fields are
  non-empty.
\<close>

theorem progress_formula:
  "filledFields r = card {f. r f \<noteq> None \<and> r f \<noteq> Some (Str '''')}
   \<and> calcProgress r = round (100 * real (card {f. r f \<noteq> None \<and> r f \<noteq> Some (Str '''')}) / 22)
   \<and> calcProgress r = (100 * int (card {f. r f \<noteq> None \<and> r f \<noteq> Some (Str '''')}) + 11) div 22
   \<and> \<bar>real_of_int (calcProgress r)
        - 100 * real (card {f. r f \<noteq> None \<and> r f \<noteq> Some (Str '''')}) / 22\<bar> < 1 / 2
   \<and> (render s = Some s' \<longrightarrow> formProgress s' = calcProgress (fvalues s'))
   \<and> calcProgress defaultValues = 0
   \<and> ((\<forall>f. r f \<noteq> None \<and> r f \<noteq> Some (Str '''')) \<longrightarrow> calcProgress r = 100)"
proof (intro conjI impI)
  define c where "c = card {f. r f \<noteq> None \<and> r f \<noteq> Some (Str '''')}"
  define q where "q = (200 * int c + 22) div 44"
  have fc: "filledFields r = c"
    unfolding c_def by (rule filledFields_card)
  then show "filledFields r = card {f. r f \<noteq> None \<and> r f \<noteq> Some (Str '''')}"
    by (simp add: c_def)
  have cp: "calcProgress r = q"
    unfolding calcProgress_def fc q_def by (rule js_round_div)
  show "calcProgress r = round (100 * real c / 22)"
    by (simp add: calcProgress_def fc js_round_def totalFields_def round_def)
  have "(200 * int c + 22) div 44 = (100 * int c + 11) div 22"
    using div_mult_mult1 [of 2 "100 * int c + 11" 22] by simp
  with cp show "calcProgress r = (100 * int c + 11) div 22"
    by (simp add: q_def)
  from quotient_bounds_real [of c]
  have "real_of_int q < real c / 22 * 100 + 1 / 2" and "real c / 22 * 100 + 1 / 2 < real_of_int q + 1"
    unfolding q_def by linarith+
  then show "\<bar>real_of_int (calcProgress r) - 100 * real c / 22\<bar> < 1 / 2"
    unfolding cp by linarith
next
  assume "render s = Some s'"
  then show "formProgress s' = calcProgress (fvalues s')" by (rule render_progress)
next
  show "calcProgress defaultValues = 0" by code_simp
next
  assume "\<forall>f. r f \<noteq> None \<and> r f \<noteq> Some (Str '''')"
  then have "filledFields r = 22" by (rule filledFields_all)
  then have "calcProgress r = (200 * int 22 + 22) div 44"
    unfolding calcProgress_def by (simp only: js_round_div)
  then show "calcProgress r = 100" by simp
qed

lemma progress_default: "calcProgress defaultValues = 0"
  by code_simp

lemma mateTypeEffect_same:
  "fvalues s MateType = Some (Str (mateType s)) \<Longrightarrow> mateTypeEffect s = s"
  by (simp add: mateTypeEffect_def Let_def orEmpty_def)

lemma render_initial: "render initialState = Some initialState"
proof -
  have "fvalues initialState MateType = Some (Str (mateType initialState))"
    by (simp add: initialState_def defaultValues_def)
  then have m: "mateTypeEffect initialState = initialState"
    by (rule mateTypeEffect_same)
  have p: "progressEffect initialState = initialState"
    by (simp add: progressEffect_def initialState_def progress_default)
  have v: "isCurrentStepValid initialState = Some False"
    by (simp add: isCurrentStepValid_def initialState_def requiredFieldsByStep_def
        defaultValues_def)
  show ?thesis
    by (simp add: render_def m p stepValidEffect_def v) (simp add: initialState_def)
qed

theorem progress_formula_witness:
  "(\<forall>f. fullRecord f \<noteq> None \<and> fullRecord f \<noteq> Some (Str '''')) \<and> calcProgress fullRecord = 100
   \<and> render initialState = Some initialState
   \<and> formProgress initialState = calcProgress (fvalues initialState)"
proof -
  have full: "\<forall>f. fullRecord f \<noteq> None \<and> fullRecord f \<noteq> Some (Str '''')"
  proof
    fix f show "fullRecord f \<noteq> None \<and> fullRecord f \<noteq> Some (Str '''')"
      by (cases f) (simp_all add: fullRecord_def sampleRecord_def)
  qed
  have r: "render initialState = Some initialState"
    by (rule render_initial)
  show ?thesis
    using progress_formula [of fullRecord initialState initialState] full r by blast
qed

section \<open>Properties of the form component\<close>

lemma mateTypeEffect_keeps:
  "currentStep (mateTypeEffect s) = currentStep s"
  "ferrors (mateTypeEffect s) = ferrors s"
  "isSubmitting (mateTypeEffect s) = isSubmitting s"
  "levelOfficer (mateTypeEffect s) = levelOfficer s"
  "f \<noteq> MateNumber \<Longrightarrow> fvalues (mateTypeEffect s) f = fvalues s f"
  by (simp_all add: mateTypeEffect_def Let_def)

lemma mateTypeEffect_idem: "mateTypeEffect (mateTypeEffect s) = mateTypeEffect s"
  by (cases "fvalues s MateType" rule: interpolate.cases)
     (auto simp: mateTypeEffect_def Let_def orEmpty_def)

lemma isCurrentStepValid_cong:
  assumes "ferrors s' = ferrors s" and "currentStep s' = currentStep s"
    and "\<And>f. f \<noteq> MateNumber \<Longrightarrow> fvalues s' f = fvalues s f"
  shows "isCurrentStepValid s' = isCurrentStepValid s"
proof -
  have "list_all (\<lambda>f. fvalues s' f \<noteq> None \<and> fvalues s' f \<noteq> Some (Str '''')) required
      = list_all (\<lambda>f. fvalues s f \<noteq> None \<and> fvalues s f \<noteq> Some (Str '''')) required"
    if "requiredFieldsByStep (currentStep s) = Some required" for required
  proof -
    from that have "MateNumber \<notin> set required"
      by (auto simp: requiredFieldsByStep_def split: if_splits)
    then have "\<forall>f \<in> set required. fvalues s' f = fvalues s f"
      using assms(3) by metis
    then show ?thesis by (simp add: list_all_iff)
  qed
  then show ?thesis
    using assms(1,2) by (simp add: isCurrentStepValid_def split: option.splits)
qed

lemma render_Some_iff:
  "(\<exists>s'. render s = Some s') \<longleftrightarrow> (ferrors s \<noteq> [] \<or> requiredFieldsByStep (currentStep s) \<noteq> None)"
  by (auto simp: render_def stepValidEffect_def isCurrentStepValid_def progressEffect_def
      mateTypeEffect_keeps split: option.splits)

lemma required_in_bounds:
  "1 \<le> step \<and> step \<le> 4 \<Longrightarrow> requiredFieldsByStep step \<noteq> None"
  by (auto simp: requiredFieldsByStep_def)

lemma render_in_bounds:
  assumes "1 \<le> currentStep s \<and> currentStep s \<le> 4"
  shows "\<exists>s'. render s = Some s'"
  using assms render_Some_iff required_in_bounds by blast

lemma render_keeps:
  assumes "render s = Some s'"
  shows "currentStep s' = currentStep s" and "ferrors s' = ferrors s"
    and "isSubmitting s' = isSubmitting s"
    and "f \<noteq> MateNumber \<Longrightarrow> fvalues s' f = fvalues s f"
    and "fvalues s' = fvalues (mateTypeEffect s)"
  using assms
  by (auto simp: render_def stepValidEffect_def progressEffect_def mateTypeEffect_keeps
      split: option.splits)

lemma render_synced:
  assumes "render s = Some s'"
  shows "isCurrentStepValid s' = Some (isStepValid s')"
proof -
  let ?m = "progressEffect (mateTypeEffect s)"
  from assms obtain b where b: "isCurrentStepValid ?m = Some b" and s': "s' = ?m\<lparr>isStepValid := b\<rparr>"
    by (auto simp: render_def stepValidEffect_def split: option.splits)
  have "isCurrentStepValid s' = isCurrentStepValid ?m"
    by (rule isCurrentStepValid_cong) (simp_all add: s')
  with b s' show ?thesis by simp
qed

lemma mateTypeEffect_commute:
  "mateTypeEffect (s\<lparr>formProgress := p, isStepValid := b\<rparr>)
     = (mateTypeEffect s)\<lparr>formProgress := p, isStepValid := b\<rparr>"
  by (simp add: mateTypeEffect_def Let_def)

lemma render_idem:
  assumes "render s = Some s'"
  shows "render s' = Some s'"
proof -
  let ?p = "calcProgress (fvalues (mateTypeEffect s))"
  from assms obtain b where s': "s' = (mateTypeEffect s)\<lparr>formProgress := ?p, isStepValid := b\<rparr>"
    by (auto simp: render_def stepValidEffect_def progressEffect_def split: option.splits)
  have m: "mateTypeEffect s' = s'"
    unfolding s' by (simp only: mateTypeEffect_commute mateTypeEffect_idem)
  have p: "progressEffect s' = s'"
    by (simp add: s' progressEffect_def)
  from render_synced [OF assms] show ?thesis
    by (simp add: render_def m p stepValidEffect_def)
qed

lemma addEmployee_request:
  "fst (addEmployee production out p st) = [HttpPost (API_URL production @ ''/api/employee/add'') p]"
  by (cases out) (simp_all add: addEmployee_def Let_def)

lemma addEmployee_result:
  "snd (addEmployee production out p st) =
     Inr (st\<lparr>isLoading := False, success := (out = Resolved),
             error := (case out of Resolved \<Rightarrow> None | Rejected err \<Rightarrow> Some (catchMessage err))\<rparr>)"
  by (cases out) (simp_all add: addEmployee_def Let_def)

lemma onSubmit_result:
  "onSubmit production out data (s, st) =
     ([ToastLoading ''Registering employee...'',
       HttpPost (API_URL production @ ''/api/employee/add'') (combinedData data),
       ToastDismiss, ToastSuccess (successMessage data)],
      (handleResetForm (s\<lparr>isSubmitting := True\<rparr>))\<lparr>isSubmitting := False\<rparr>,
      st\<lparr>isLoading := False, success := (out = Resolved),
         error := (case out of Resolved \<Rightarrow> None | Rejected err \<Rightarrow> Some (catchMessage err))\<rparr>)"
proof -
  obtain request result where a: "addEmployee production out (combinedData data) st = (request, result)"
    by (cases "addEmployee production out (combinedData data) st")
  from a addEmployee_request [of production out "combinedData data" st]
  have r: "request = [HttpPost (API_URL production @ ''/api/employee/add'') (combinedData data)]"
    by simp
  from a addEmployee_result [of production out "combinedData data" st]
  have s: "result = Inr (st\<lparr>isLoading := False, success := (out = Resolved),
      error := (case out of Resolved \<Rightarrow> None | Rejected err \<Rightarrow> Some (catchMessage err))\<rparr>)"
    by simp
  show ?thesis by (simp add: onSubmit_def a r s)
qed

lemma handleSubmit_step:
  "currentStep (fst (snd (handleSubmit production em out (s, st)))) =
     (if validates em (fvalues s) then 1 else currentStep s)"
  by (simp add: handleSubmit_def Let_def validates_def onSubmit_result handleResetForm_def)

lemma handle_bounds:
  assumes "1 \<le> currentStep s \<and> currentStep s \<le> 4"
  shows "1 \<le> currentStep (fst (snd (handle production em ev (s, st))))
    \<and> currentStep (fst (snd (handle production em ev (s, st)))) \<le> 4"
proof (cases ev)
  case (ClickStep b)
  then show ?thesis by (cases b) (simp_all add: goToStep_def)
next
  case (ClickSubmit out)
  then show ?thesis using assms by (simp add: handleSubmit_step)
qed (use assms in \<open>auto simp: onFieldChange_def onLevelOfficerChange_def onMateTypeChange_def
      goToStep_def handleResetForm_def\<close>)

lemma dispatch_bounds:
  assumes "1 \<le> currentStep s \<and> currentStep s \<le> 4"
  shows "\<exists>fx s' st'. dispatch production em ev (s, st) = Some (fx, s', st')
    \<and> 1 \<le> currentStep s' \<and> currentStep s' \<le> 4"
proof -
  obtain fx s1 st1 where h: "handle production em ev (s, st) = (fx, s1, st1)"
    by (cases "handle production em ev (s, st)")
  from handle_bounds [OF assms, of production em ev st] h
  have b: "1 \<le> currentStep s1 \<and> currentStep s1 \<le> 4" by simp
  then obtain s' where r: "render s1 = Some s'" using render_in_bounds by blast
  with b have "1 \<le> currentStep s' \<and> currentStep s' \<le> 4" by (simp add: render_keeps(1))
  with h r show ?thesis by (simp add: dispatch_def)
qed

lemma run_bounds:
  assumes "1 \<le> currentStep s \<and> currentStep s \<le> 4"
  shows "\<exists>fx s' st'. run production em evs (s, st) = Some (fx, s', st')
    \<and> 1 \<le> currentStep s' \<and> currentStep s' \<le> 4"
  using assms
proof (induction evs arbitrary: s st)
  case Nil
  then show ?case by simp
next
  case (Cons ev evs)
  from dispatch_bounds [OF Cons.prems, of production em ev st]
  obtain fx s1 st1 where d: "dispatch production em ev (s, st) = Some (fx, s1, st1)"
    and b: "1 \<le> currentStep s1 \<and> currentStep s1 \<le> 4" by blast
  from Cons.IH [OF b, of st1]
  obtain fx' s' st' where r: "run production em evs (s1, st1) = Some (fx', s', st')"
    and b': "1 \<le> currentStep s' \<and> currentStep s' \<le> 4" by blast
  from d r b' show ?case by simp
qed

lemma dispatch_noop:
  assumes "render s0 = Some s" and "handle production em ev (s, st) = ([], s, st)"
  shows "dispatch production em ev (s, st) = Some ([], s, st)"
  using assms by (simp add: dispatch_def render_idem)

lemma progress_sample: "calcProgress sampleRecord = 95"
  by code_simp

lemma render_ready: "render readyState = Some readyState"
proof -
  have "fvalues readyState MateType = Some (Str (mateType readyState))"
    by (simp add: readyState_def sampleRecord_def)
  then have m: "mateTypeEffect readyState = readyState"
    by (rule mateTypeEffect_same)
  have p: "progressEffect readyState = readyState"
    by (simp add: progressEffect_def readyState_def progress_sample)
  have v: "isCurrentStepValid readyState = Some True"
    by (simp add: isCurrentStepValid_def readyState_def requiredFieldsByStep_def
        sampleRecord_def)
  show ?thesis
    by (simp add: render_def m p stepValidEffect_def v) (simp add: readyState_def)
qed

text \<open>
  C4. In every state of the form, a change of the level-of-rank selection sets the
  rank to the empty string, and a change of the mate type sets the mate number to
  the empty string; this is what the handlers do and what the form holds after the
  render that follows.
\<close>

theorem dependent_fields_reset:
  "fvalues (onLevelOfficerChange v s) Rank = Some (Str '''')
   \<and> fvalues (onLevelOfficerChange v s) LevelOfficer = Some (Str v)
   \<and> fvalues (onMateTypeChange v s) MateNumber = Some (Str '''')
   \<and> fvalues (onMateTypeChange v s) MateType = Some (Str v)
   \<and> (dispatch production em (SelectLevelOfficer v) (s, st) = Some (fx, s', st')
        \<longrightarrow> fvalues s' Rank = Some (Str '''') \<and> fvalues s' LevelOfficer = Some (Str v))
   \<and> (dispatch production em (SelectMateType v) (s, st) = Some (fx, s', st')
        \<longrightarrow> fvalues s' MateNumber = Some (Str '''') \<and> fvalues s' MateType = Some (Str v))"
proof (intro conjI impI)
  assume "dispatch production em (SelectLevelOfficer v) (s, st) = Some (fx, s', st')"
  then have r: "render (onLevelOfficerChange v s) = Some s'"
    by (simp add: dispatch_def split: option.splits)
  from render_keeps(4) [OF r, of Rank] render_keeps(4) [OF r, of LevelOfficer]
  show "fvalues s' Rank = Some (Str '''')" and "fvalues s' LevelOfficer = Some (Str v)"
    by (simp_all add: onLevelOfficerChange_def)
next
  assume "dispatch production em (SelectMateType v) (s, st) = Some (fx, s', st')"
  then have r: "render (onMateTypeChange v s) = Some s'"
    by (simp add: dispatch_def split: option.splits)
  from render_keeps(5) [OF r]
  show "fvalues s' MateNumber = Some (Str '''')"
    by (simp add: onMateTypeChange_def mateTypeEffect_def Let_def)
  from render_keeps(4) [OF r, of MateType]
  show "fvalues s' MateType = Some (Str v)"
    by (simp add: onMateTypeChange_def)
qed (simp_all add: onLevelOfficerChange_def onMateTypeChange_def)

theorem dependent_fields_reset_witness:
  "fvalues readyState Rank = Some (Str ''DO I'')
   \<and> fvalues readyState MateNumber = Some (Str ''IV'')
   \<and> (\<exists>fx s' st'. dispatch False hasAt (SelectLevelOfficer ''Junior Officer'')
          (readyState, initialStore) = Some (fx, s', st')
        \<and> fvalues s' Rank = Some (Str '''') \<and> fvalues s' LevelOfficer = Some (Str ''Junior Officer''))
   \<and> (\<exists>fx s' st'. dispatch False hasAt (SelectMateType ''course'')
          (readyState, initialStore) = Some (fx, s', st')
        \<and> fvalues s' MateNumber = Some (Str '''') \<and> fvalues s' MateType = Some (Str ''course''))"
proof -
  have b: "1 \<le> currentStep readyState \<and> currentStep readyState \<le> 4"
    by (simp add: readyState_def)
  from dispatch_bounds [OF b, of False hasAt "SelectLevelOfficer ''Junior Officer''" initialStore]
  obtain fx s' st' where 1: "dispatch False hasAt (SelectLevelOfficer ''Junior Officer'')
      (readyState, initialStore) = Some (fx, s', st')" by blast
  from dispatch_bounds [OF b, of False hasAt "SelectMateType ''course''" initialStore]
  obtain fx2 s2 st2 where 2: "dispatch False hasAt (SelectMateType ''course'')
      (readyState, initialStore) = Some (fx2, s2, st2)" by blast
  have 3: "fvalues readyState Rank = Some (Str ''DO I'')
      \<and> fvalues readyState MateNumber = Some (Str ''IV'')"
    by (simp add: readyState_def sampleRecord_def)
  show ?thesis
    using dependent_fields_reset [of "''Junior Officer''" readyState False hasAt initialStore fx s' st']
      dependent_fields_reset [of "''course''" readyState False hasAt initialStore fx2 s2 st2]
      1 2 3
    by blast
qed

text \<open>
  C6. The current step is always one of 1, 2, 3, 4. The mounted form is at step 1;
  whatever events follow, the form keeps running and its step stays within these
  bounds, and every single event preserves them. At step 1 Previous is disabled and
  changes nothing; at step 4 there is no Next and the step cannot be advanced.
\<close>

theorem step_always_in_bounds:
  "mounted = Some (initialState, initialStore) \<and> currentStep initialState = 1
   \<and> (\<exists>fx s1 st1. run production em evs (initialState, initialStore) = Some (fx, s1, st1)
        \<and> currentStep s1 \<in> {1, 2, 3, 4})
   \<and> (currentStep s \<in> {1, 2, 3, 4}
        \<longrightarrow> (\<exists>fx s' st'. dispatch production em ev (s, st) = Some (fx, s', st')
              \<and> currentStep s' \<in> {1, 2, 3, 4}))
   \<and> (render s0 = Some s \<and> currentStep s = 1
        \<longrightarrow> dispatch production em ClickPrevious (s, st) = Some ([], s, st))
   \<and> (render s0 = Some s \<and> currentStep s = 4
        \<longrightarrow> dispatch production em ClickNext (s, st) = Some ([], s, st))"
proof (intro conjI impI)
  show "mounted = Some (initialState, initialStore)"
    by (simp add: mounted_def render_initial)
  show "currentStep initialState = 1"
    by (simp add: initialState_def)
  have "1 \<le> currentStep initialState \<and> currentStep initialState \<le> 4"
    by (simp add: initialState_def)
  from run_bounds [OF this, of production em evs initialStore]
  show "\<exists>fx s1 st1. run production em evs (initialState, initialStore) = Some (fx, s1, st1)
      \<and> currentStep s1 \<in> {1, 2, 3, 4}"
    by auto
next
  assume "currentStep s \<in> {1, 2, 3, 4}"
  then have "1 \<le> currentStep s \<and> currentStep s \<le> 4" by auto
  from dispatch_bounds [OF this, of production em ev st]
  show "\<exists>fx s' st'. dispatch production em ev (s, st) = Some (fx, s', st')
      \<and> currentStep s' \<in> {1, 2, 3, 4}"
    by auto
next
  assume a: "render s0 = Some s \<and> currentStep s = 1"
  then have "handle production em ClickPrevious (s, st) = ([], s, st)" by simp
  with a show "dispatch production em ClickPrevious (s, st) = Some ([], s, st)"
    using dispatch_noop by blast
next
  assume a: "render s0 = Some s \<and> currentStep s = 4"
  then have "handle production em ClickNext (s, st) = ([], s, st)" by simp
  with a show "dispatch production em ClickNext (s, st) = Some ([], s, st)"
    using dispatch_noop by blast
qed

theorem step_always_in_bounds_witness:
  "currentStep initialState \<in> {1, 2, 3, 4} \<and> render initialState = Some initialState
   \<and> dispatch False hasAt ClickPrevious (initialState, initialStore)
       = Some ([], initialState, initialStore)
   \<and> render readyState = Some readyState \<and> currentStep readyState = 4
   \<and> dispatch False hasAt ClickNext (readyState, initialStore)
       = Some ([], readyState, initialStore)
   \<and> (\<exists>fx s' st'. dispatch False hasAt ClickNext (initialState, initialStore) = Some (fx, s', st')
        \<and> currentStep s' \<in> {1, 2, 3, 4})"
proof -
  have 1: "currentStep initialState = 1" by (simp add: initialState_def)
  have 4: "currentStep readyState = 4" by (simp add: readyState_def)
  show ?thesis
    using step_always_in_bounds [of False hasAt "[]" initialState ClickNext initialStore initialState]
      step_always_in_bounds [of False hasAt "[]" readyState ClickNext initialStore readyState]
      1 4 render_initial render_ready
    by simp
qed














section \<open>Properties of the store and of the submission\<close>

text \<open>
  C10. \<^verbatim>\<open>addEmployee\<close> never throws: for every input, every store state and every
  outcome of the request it returns normally. The store it leaves is not loading;
  after a resolved request it has \<open>success\<close> and no error, after a rejected one it has
  no \<open>success\<close> and an error message, and exactly one of the two holds.
\<close>

theorem addEmployee_never_throws:
  "\<exists>st'. snd (addEmployee production out employee st) = Inr st'
     \<and> \<not> isLoading st'
     \<and> (out = Resolved \<longrightarrow> success st' \<and> error st' = None)
     \<and> (\<forall>err. out = Rejected err \<longrightarrow> \<not> success st' \<and> error st' = Some (catchMessage err))
     \<and> ((success st' \<and> error st' = None) \<noteq> (\<not> success st' \<and> error st' \<noteq> None))"
  by (cases out) (simp_all add: addEmployee_result)

theorem addEmployee_never_throws_witness:
  "snd (addEmployee False Resolved (combinedData sampleRecord) initialStore)
     = Inr \<lparr>isLoading = False, success = True, error = None\<rparr>
   \<and> snd (addEmployee False (Rejected (AxiosError (Some ''X'') ''Request failed''))
        (combinedData sampleRecord) initialStore)
     = Inr \<lparr>isLoading = False, success = False, error = Some ''X''\<rparr>
   \<and> snd (addEmployee False (Rejected (AxiosError None ''Network Error''))
        (combinedData sampleRecord) initialStore)
     = Inr \<lparr>isLoading = False, success = False, error = Some ''Network Error''\<rparr>"
  using addEmployee_never_throws [of False Resolved "combinedData sampleRecord" initialStore]
    addEmployee_never_throws [of False "Rejected (AxiosError (Some ''X'') ''Request failed'')"
      "combinedData sampleRecord" initialStore]
    addEmployee_never_throws [of False "Rejected (AxiosError None ''Network Error'')"
      "combinedData sampleRecord" initialStore]
  by (auto simp: initialStore_def axiosMessage_def)

lemma handleSubmit_valid:
  assumes "validates em (fvalues s)"
  shows "handleSubmit production em out (s, st) =
     ([ToastLoading ''Registering employee...'',
       HttpPost (API_URL production @ ''/api/employee/add'') (combinedData (fvalues s)),
       ToastDismiss, ToastSuccess (successMessage (fvalues s))],
      (handleResetForm (s\<lparr>ferrors := [], isSubmitting := True\<rparr>))\<lparr>isSubmitting := False\<rparr>,
      st\<lparr>isLoading := False, success := (out = Resolved),
         error := (case out of Resolved \<Rightarrow> None | Rejected err \<Rightarrow> Some (catchMessage err))\<rparr>)"
  using assms by (simp add: handleSubmit_def validates_def onSubmit_result)


lemma render_reset: "render ((handleResetForm s)\<lparr>isSubmitting := False\<rparr>) = Some initialState"
proof -
  let ?r = "initialState\<lparr>formProgress := formProgress s, isStepValid := isStepValid s\<rparr>"
  have e: "(handleResetForm s)\<lparr>isSubmitting := False\<rparr> = ?r"
    by (simp add: handleResetForm_def initialState_def)
  have "fvalues initialState MateType = Some (Str (mateType initialState))"
    by (simp add: initialState_def defaultValues_def)
  then have m: "mateTypeEffect ?r = ?r"
    by (simp only: mateTypeEffect_commute mateTypeEffect_same)
  have p: "progressEffect ?r = initialState\<lparr>isStepValid := isStepValid s\<rparr>"
    by (simp add: progressEffect_def initialState_def progress_default)
  have v: "isCurrentStepValid (initialState\<lparr>isStepValid := isStepValid s\<rparr>) = Some False"
    by (simp add: isCurrentStepValid_def initialState_def requiredFieldsByStep_def
        defaultValues_def)
  show ?thesis
    unfolding e by (simp add: render_def m p stepValidEffect_def v) (simp add: initialState_def)
qed

lemma submit_enabled:
  assumes "currentStep s = 4" and "isStepValid s" and "\<not> isSubmitting s"
  shows "handle production em (ClickSubmit out) (s, st) = handleSubmit production em out (s, st)"
  using assms by simp

lemma dispatch_submit_valid:
  assumes "currentStep s = 4" and "isStepValid s" and "\<not> isSubmitting s"
    and "validates em (fvalues s)"
  shows "dispatch production em (ClickSubmit out) (s, st) =
     Some ([ToastLoading ''Registering employee...'',
            HttpPost (API_URL production @ ''/api/employee/add'') (combinedData (fvalues s)),
            ToastDismiss, ToastSuccess (successMessage (fvalues s))],
           initialState,
           st\<lparr>isLoading := False, success := (out = Resolved),
              error := (case out of Resolved \<Rightarrow> None | Rejected err \<Rightarrow> Some (catchMessage err))\<rparr>)"
  by (simp only: dispatch_def submit_enabled [OF assms(1-3)] handleSubmit_valid [OF assms(4)]
      render_reset Let_def prod.case option.case)


lemma ready_valid: "validates hasAt (fvalues readyState)"
proof -
  have "validates hasAt sampleRecord" by code_simp
  then show ?thesis by (simp add: readyState_def)
qed



text \<open>
  C1 does not hold of the code. \<^verbatim>\<open>addEmployee\<close> catches the failure of the request
  and records it in the store, so the \<^verbatim>\<open>await\<close> in \<^verbatim>\<open>onSubmit\<close> never throws and
  the \<^verbatim>\<open>catch\<close> branch with the error notification is never taken. Submitting the
  valid Record \<open>sampleRecord\<close> while the endpoint rejects with the message \<open>X\<close>
  stores \<open>X\<close> as the error, yet the user gets the success notification and the
  form is reset to its initial state.
\<close>

theorem failed_submit_reports_success:
  "dispatch False hasAt
     (ClickSubmit (Rejected (AxiosError (Some ''X'') ''Request failed with status code 500'')))
     (readyState, initialStore)
   = Some ([ToastLoading ''Registering employee...'',
            HttpPost ''http://localhost:8080/api/employee/add''
              \<lparr>employeeData = sampleRecord, mateInfo = ''intake-IV''\<rparr>,
            ToastDismiss, ToastSuccess ''Ama Mensah has been registered successfully!''],
           initialState,
           \<lparr>isLoading = False, success = False, error = Some ''X''\<rparr>)"
proof -
  have e: "currentStep readyState = 4" "isStepValid readyState" "\<not> isSubmitting readyState"
    by (simp_all add: readyState_def)
  have c: "combinedData (fvalues readyState)
      = \<lparr>employeeData = sampleRecord, mateInfo = ''intake-IV''\<rparr>"
    by (simp add: combinedData_def readyState_def sampleRecord_def)
  have m: "successMessage (fvalues readyState) = ''Ama Mensah has been registered successfully!''"
    by (simp add: successMessage_def readyState_def sampleRecord_def)
  show ?thesis
    by (simp add: dispatch_submit_valid [OF e ready_valid] c m API_URL_def initialStore_def
        axiosMessage_def)
qed

end
